theory Spec2Isabelle
  imports Complex_Main
begin

section \<open>WealthWise: dashboard aggregation, goal pacing and currency conversion\<close>

text \<open>
  The development embeds three pieces of the repository:
  \<^item> the body of the \<^verbatim>\<open>GET /api/dashboard\<close> handler of \<^verbatim>\<open>server/routes.ts\<close>, from the
    totals (line 209) to the response object (line 290);
  \<^item> \<^verbatim>\<open>CURRENCY_OPTIONS\<close> of \<^verbatim>\<open>shared/schema.ts\<close>;
  \<^item> \<^verbatim>\<open>convertCurrency\<close> of the currency library (kept in \<^verbatim>\<open>server/storage.ts\<close>, lines
    420-429).

  Conventions of the embedding.
  \<^item> A JavaScript number that holds an amount is a rational (\<^typ>\<open>rat\<close>): the arithmetic
    is exact, so the rounding error and the overflow of IEEE doubles are outside the model.
    Every equation proved below is an equation of exact arithmetic.
  \<^item> A quotient is the one place where JavaScript leaves the finite numbers without any
    rounding being involved: \<^verbatim>\<open>x / 0\<close> is \<^verbatim>\<open>Infinity\<close>, \<^verbatim>\<open>-Infinity\<close> or \<^verbatim>\<open>NaN\<close>. The
    type \<open>jsnum\<close> keeps these three values apart from the finite ones, and every
    value computed from a quotient has this type. (Zero is the positive zero.)
  \<^item> A \<^verbatim>\<open>Date\<close> is its \<^verbatim>\<open>getTime()\<close>, an integer number of milliseconds; only valid dates
    are modelled.
  \<^item> The object \<^verbatim>\<open>expensesByCategory\<close> is an association list in the order in which its
    keys were created, which is the order \<^verbatim>\<open>Object.entries\<close> enumerates for keys that are
    ordinary names (not array indices, not names inherited from \<^verbatim>\<open>Object.prototype\<close>), as
    the nine \<^verbatim>\<open>EXPENSE_CATEGORIES\<close> are.
  \<^item> The two display strings built with \<^verbatim>\<open>format\<close> of date-fns (\<^verbatim>\<open>month\<close> and the goal's
    \<^verbatim>\<open>description\<close>) are left out: the library is not part of the repository.
\<close>

subsection \<open>JavaScript numbers after a division\<close>

datatype jsnum = Finite rat | PosInfinity | NegInfinity | NaN

text \<open>\<^verbatim>\<open>x / y\<close> on finite operands.\<close>

definition js_div :: "rat \<Rightarrow> rat \<Rightarrow> jsnum" where
  "js_div x y =
     (if y \<noteq> 0 then Finite (x / y)
      else if 0 < x then PosInfinity
      else if x < 0 then NegInfinity
      else NaN)"

text \<open>\<^verbatim>\<open>v * 100\<close>.\<close>

fun js_times100 :: "jsnum \<Rightarrow> jsnum" where
  "js_times100 (Finite x) = Finite (x * 100)"
| "js_times100 v = v"

text \<open>\<^verbatim>\<open>Math.floor\<close>, \<^verbatim>\<open>Math.round\<close> (halves go up) and \<^verbatim>\<open>Math.min(c, v)\<close>.\<close>

fun Math_floor :: "jsnum \<Rightarrow> jsnum" where
  "Math_floor (Finite x) = Finite (of_int \<lfloor>x\<rfloor>)"
| "Math_floor v = v"

fun Math_round :: "jsnum \<Rightarrow> jsnum" where
  "Math_round (Finite x) = Finite (of_int \<lfloor>x + 1 / 2\<rfloor>)"
| "Math_round v = v"

fun Math_min :: "rat \<Rightarrow> jsnum \<Rightarrow> jsnum" where
  "Math_min c (Finite x) = Finite (min c x)"
| "Math_min c PosInfinity = Finite c"
| "Math_min c NegInfinity = NegInfinity"
| "Math_min c NaN = NaN"

text \<open>\<^verbatim>\<open>x >= v\<close>: every comparison with \<^verbatim>\<open>NaN\<close> is false.\<close>

fun js_ge :: "rat \<Rightarrow> jsnum \<Rightarrow> bool" where
  "js_ge x (Finite y) = (y \<le> x)"
| "js_ge x PosInfinity = False"
| "js_ge x NegInfinity = True"
| "js_ge x NaN = False"

fun is_finite :: "jsnum \<Rightarrow> bool" where
  "is_finite (Finite x) = True"
| "is_finite v = False"


subsection \<open>Records of the store\<close>

text \<open>
  The columns the handler reads. \<^verbatim>\<open>Income\<close>: \<^verbatim>\<open>amount\<close> (here \<open>income_amount\<close>, the name
  \<open>amount\<close> being the expense's) and \<^verbatim>\<open>updatedAt\<close>; \<^verbatim>\<open>Expense\<close>: \<^verbatim>\<open>amount\<close> and
  \<^verbatim>\<open>category\<close>; \<^verbatim>\<open>SavingsGoal\<close>: \<^verbatim>\<open>targetAmount\<close> and \<^verbatim>\<open>deadline\<close>.
\<close>

record Income =
  income_amount :: rat
  updatedAt :: int

record Expense =
  amount :: rat
  category :: string

record SavingsGoal =
  targetAmount :: rat
  deadline :: int

subsection \<open>Totals, net savings and trend (routes.ts, lines 209-218)\<close>

text \<open>\<^verbatim>\<open>list.reduce((sum, expense) => sum + expense.amount, 0)\<close>.\<close>

definition sumAmounts :: "Expense list \<Rightarrow> rat" where
  "sumAmounts es = foldl (\<lambda>sum expense. sum + amount expense) 0 es"

text \<open>\<^verbatim>\<open>income?.amount || 0\<close>: a missing income and a zero amount both give 0.\<close>

definition incomeAmountOf :: "Income option \<Rightarrow> rat" where
  "incomeAmountOf income =
     (case income of
        None \<Rightarrow> 0
      | Some i \<Rightarrow> if income_amount i = 0 then 0 else income_amount i)"

subsection \<open>Grouping by category (lines 221-228)\<close>

type_synonym obj = "(string \<times> rat) list"

fun obj_get :: "obj \<Rightarrow> string \<Rightarrow> rat option" where
  "obj_get [] k = None"
| "obj_get ((k', v) # kvs) k = (if k' = k then Some v else obj_get kvs k)"

text \<open>An assignment keeps the place of a key that exists and appends a new key.\<close>

fun obj_set :: "obj \<Rightarrow> string \<Rightarrow> rat \<Rightarrow> obj" where
  "obj_set [] k v = [(k, v)]"
| "obj_set ((k', v') # kvs) k v =
     (if k' = k then (k, v) # kvs else (k', v') # obj_set kvs k v)"

text \<open>\<^verbatim>\<open>!acc[category]\<close>: true of a missing key and of the value 0.\<close>

definition falsy :: "rat option \<Rightarrow> bool" where
  "falsy r = (case r of None \<Rightarrow> True | Some v \<Rightarrow> v = 0)"

definition groupStep :: "obj \<Rightarrow> Expense \<Rightarrow> obj" where
  "groupStep acc expense =
     (let acc1 = (if falsy (obj_get acc (category expense))
                  then obj_set acc (category expense) 0 else acc)
      in obj_set acc1 (category expense)
           ((case obj_get acc1 (category expense) of Some v \<Rightarrow> v | None \<Rightarrow> 0)
              + amount expense))"

definition expensesByCategoryOf :: "Expense list \<Rightarrow> obj" where
  "expensesByCategoryOf es = foldl groupStep [] es"

subsection \<open>Percentages (lines 231-232)\<close>

text \<open>\<^verbatim>\<open>incomeAmount > 0 ? Math.round((x / incomeAmount) * 100) : 0\<close>.\<close>

definition percentOf :: "rat \<Rightarrow> rat \<Rightarrow> jsnum" where
  "percentOf x incomeAmount =
     (if 0 < incomeAmount then Math_round (js_times100 (js_div x incomeAmount))
      else Finite 0)"

subsection \<open>Highest category (lines 235-243)\<close>

text \<open>The loop over \<^verbatim>\<open>Object.entries\<close>, with the pair of the two variables as its state.\<close>

fun highestLoop :: "obj \<Rightarrow> string \<times> rat \<Rightarrow> string \<times> rat" where
  "highestLoop [] h = h"
| "highestLoop ((c, a) # rest) (highestCategory, highestAmount) =
     highestLoop rest
       (if highestAmount < a then (c, a) else (highestCategory, highestAmount))"

definition highestOf :: "obj \<Rightarrow> string \<times> rat" where
  "highestOf byCategory = highestLoop byCategory ('''', 0)"


subsection \<open>Goal pacing (lines 246-265)\<close>

record GoalProgress =
  savedAmount :: rat
  goalTargetAmount :: rat
  percentComplete :: jsnum
  daysLeft :: int
  monthlySavingsNeeded :: jsnum
  onTrack :: bool

text \<open>\<^verbatim>\<open>Math.floor((deadline.getTime() - new Date().getTime()) / (1000 * 60 * 60 * 24))\<close>.\<close>

definition daysLeftOf :: "SavingsGoal \<Rightarrow> int \<Rightarrow> int" where
  "daysLeftOf goal now =
     \<lfloor>(of_int (deadline goal - now) :: rat) / (1000 * 60 * 60 * 24)\<rfloor>"

text \<open>\<^verbatim>\<open>Math.max(1, Math.ceil(daysLeft / 30))\<close>.\<close>

definition monthsLeftOf :: "SavingsGoal \<Rightarrow> int \<Rightarrow> int" where
  "monthsLeftOf goal now = max 1 \<lceil>(of_int (daysLeftOf goal now) :: rat) / 30\<rceil>"

definition goalProgressOf :: "SavingsGoal \<Rightarrow> rat \<Rightarrow> int \<Rightarrow> GoalProgress" where
  "goalProgressOf goal netSavings now =
     (let saved = netSavings;
          monthlySavingsNeeded =
            js_div (targetAmount goal - saved) (of_int (monthsLeftOf goal now))
      in \<lparr> savedAmount = saved,
           goalTargetAmount = targetAmount goal,
           percentComplete =
             Math_min 100 (Math_floor (js_times100 (js_div saved (targetAmount goal)))),
           daysLeft = daysLeftOf goal now,
           monthlySavingsNeeded = monthlySavingsNeeded,
           onTrack = js_ge netSavings monthlySavingsNeeded \<rparr>)"

subsection \<open>The response (lines 267-290)\<close>

text \<open>
  The response object, flattened: \<open>incomeAmount\<close> and \<open>incomeUpdatedAt\<close> are
  \<^verbatim>\<open>income.amount\<close> and \<^verbatim>\<open>income.updatedAt\<close>; \<open>totalExpenses\<close>, \<open>percentOfIncome\<close>,
  \<open>categoriesCount\<close>, \<open>highestCategory\<close>, \<open>highestAmount\<close> and \<open>expensesByCategory\<close> are
  the fields of \<^verbatim>\<open>expenses\<close>; \<open>netSavings\<close>, \<open>savingsPercentOfIncome\<close>, \<open>savingsTrend\<close>
  and \<open>monthlyAverage\<close> are the fields of \<^verbatim>\<open>savings\<close>; \<open>goal\<close> is \<^verbatim>\<open>goal\<close>, with
  \<open>None\<close> for \<^verbatim>\<open>null\<close>.
\<close>

record Dashboard =
  incomeAmount :: rat
  incomeUpdatedAt :: "int option"
  totalExpenses :: rat
  percentOfIncome :: jsnum
  categoriesCount :: nat
  highestCategory :: string
  highestAmount :: rat
  expensesByCategory :: obj
  netSavings :: rat
  savingsPercentOfIncome :: jsnum
  savingsTrend :: rat
  monthlyAverage :: rat
  goal :: "GoalProgress option"

definition dashboard ::
  "Income option \<Rightarrow> Expense list \<Rightarrow> Expense list \<Rightarrow> SavingsGoal option \<Rightarrow> int \<Rightarrow> Dashboard"
where
  "dashboard income expenses previousMonthExpenses savingsGoal now =
     (let totalExpenses = sumAmounts expenses;
          previousTotalExpenses = sumAmounts previousMonthExpenses;
          incomeAmount = incomeAmountOf income;
          netSavings = incomeAmount - totalExpenses;
          previousNetSavings = incomeAmount - previousTotalExpenses;
          savingsTrend = netSavings - previousNetSavings;
          byCategory = expensesByCategoryOf expenses;
          highest = highestOf byCategory
      in \<lparr> incomeAmount = incomeAmount,
           incomeUpdatedAt = map_option updatedAt income,
           totalExpenses = totalExpenses,
           percentOfIncome = percentOf totalExpenses incomeAmount,
           categoriesCount = length byCategory,
           highestCategory = fst highest,
           highestAmount = snd highest,
           expensesByCategory = byCategory,
           netSavings = netSavings,
           savingsPercentOfIncome = percentOf netSavings incomeAmount,
           savingsTrend = savingsTrend,
           monthlyAverage = netSavings,
           goal = map_option (\<lambda>g. goalProgressOf g netSavings now) savingsGoal \<rparr>)"

subsection \<open>Currency conversion\<close>



text \<open>
  \<^verbatim>\<open>parseFloat(x.toFixed(2))\<close>: \<^verbatim>\<open>toFixed\<close> takes the sign off, picks the integer \<open>n\<close>
  with \<open>n / 100\<close> nearest to the number, the larger one of two, and prints it with two
  decimals; \<^verbatim>\<open>parseFloat\<close> reads the decimal back. (From \<open>10\<^sup>2\<^sup>1\<close> on \<^verbatim>\<open>toFixed\<close> prints
  the number itself; a double of that size is an integer, on which the rounding below
  is the identity as well.)
\<close>

definition toFixed2 :: "rat \<Rightarrow> rat" where
  "toFixed2 x =
     (if x < 0 then - (of_int \<lfloor>(- x) * 100 + 1 / 2\<rfloor> / 100)
      else of_int \<lfloor>x * 100 + 1 / 2\<rfloor> / 100)"



section \<open>Rounding to two decimals\<close>



section \<open>Goal pacing\<close>

text \<open>
  Claim C5. For every goal and every instant \<open>now\<close>, also one after the deadline,
  \<open>monthsLeft\<close> is \<open>max(1, ceil(daysLeft / 30))\<close> and at least 1, so the quotient
  \<open>(targetAmount - saved) / monthsLeft\<close> has a positive divisor: it is the finite number
  the division gives, never \<^verbatim>\<open>Infinity\<close> or \<^verbatim>\<open>NaN\<close>.
\<close>

theorem monthsLeft_at_least_one:
  "1 \<le> monthsLeftOf g now \<and>
   monthsLeftOf g now = max 1 \<lceil>(of_int (daysLeftOf g now) :: rat) / 30\<rceil> \<and>
   monthlySavingsNeeded (goalProgressOf g ns now) =
     Finite ((targetAmount g - ns) / of_int (monthsLeftOf g now))"
proof -
  have pos: "1 \<le> monthsLeftOf g now"
    by (simp add: monthsLeftOf_def)
  then have "(of_int (monthsLeftOf g now) :: rat) \<noteq> 0"
    by simp
  then have "monthlySavingsNeeded (goalProgressOf g ns now) =
     Finite ((targetAmount g - ns) / of_int (monthsLeftOf g now))"
    by (simp add: goalProgressOf_def Let_def js_div_def)
  with pos show ?thesis
    by (simp add: monthsLeftOf_def)
qed

text \<open>
  Claim C6. The scenario: a target of 12000, net savings of 1000 and a deadline exactly
  90 days after \<open>now\<close> give \<open>monthsLeft = 3\<close>, \<open>monthlySavingsNeeded = (12000 - 1000) / 3\<close>,
  which is 3666.67 when printed with two decimals, and \<open>onTrack = false\<close>. In general
  \<open>onTrack\<close> holds exactly when \<open>netSavings >= monthlySavingsNeeded\<close>, the latter being
  the finite quotient \<open>(targetAmount - netSavings) / monthsLeft\<close>.
\<close>

theorem goal_scenario_ninety_days:
  assumes "targetAmount g = 12000"
    and "deadline g = now + 90 * (1000 * 60 * 60 * 24)"
  shows "monthsLeftOf g now = 3 \<and>
     monthlySavingsNeeded (goalProgressOf g 1000 now) = Finite ((12000 - 1000) / 3) \<and>
     toFixed2 ((12000 - 1000) / 3) = 366667 / 100 \<and>
     onTrack (goalProgressOf g 1000 now) = False \<and>
     onTrack (goalProgressOf g' ns now') =
       js_ge ns (monthlySavingsNeeded (goalProgressOf g' ns now')) \<and>
     onTrack (goalProgressOf g' ns now') =
       ((targetAmount g' - ns) / of_int (monthsLeftOf g' now') \<le> ns)"
proof -
  have d: "daysLeftOf g now = 90"
    using assms by (simp add: daysLeftOf_def)
  then have m: "monthsLeftOf g now = 3"
    by (simp add: monthsLeftOf_def)
  have t: "toFixed2 ((12000 - 1000) / 3) = 366667 / 100"
    by (simp add: toFixed2_def floor_eq_iff)
  have scenario: "monthlySavingsNeeded (goalProgressOf g 1000 now) = Finite ((12000 - 1000) / 3)
      \<and> onTrack (goalProgressOf g 1000 now) = False"
    using m assms by (simp add: goalProgressOf_def Let_def js_div_def)
  have "1 \<le> monthsLeftOf g' now'"
    by (simp add: monthsLeftOf_def)
  then have nz: "(of_int (monthsLeftOf g' now') :: rat) \<noteq> 0"
    by simp
  have general: "onTrack (goalProgressOf g' ns now') =
       js_ge ns (monthlySavingsNeeded (goalProgressOf g' ns now'))"
    by (simp add: goalProgressOf_def Let_def)
  have exact: "onTrack (goalProgressOf g' ns now') =
       ((targetAmount g' - ns) / of_int (monthsLeftOf g' now') \<le> ns)"
    using nz by (simp add: goalProgressOf_def Let_def js_div_def)
  from m t scenario general exact show ?thesis
    by blast
qed

theorem goal_scenario_ninety_days_witness:
  "targetAmount \<lparr>targetAmount = 12000, deadline = 7776000000\<rparr> = 12000 \<and>
   deadline \<lparr>targetAmount = 12000, deadline = 7776000000\<rparr> = 0 + 90 * (1000 * 60 * 60 * 24) \<and>
   monthsLeftOf \<lparr>targetAmount = 12000, deadline = 7776000000\<rparr> 0 = 3 \<and>
   monthlySavingsNeeded (goalProgressOf \<lparr>targetAmount = 12000, deadline = 7776000000\<rparr> 1000 0)
     = Finite (11000 / 3) \<and>
   onTrack (goalProgressOf \<lparr>targetAmount = 12000, deadline = 7776000000\<rparr> 1000 0) = False"
  using goal_scenario_ninety_days
    [of "\<lparr>targetAmount = 12000, deadline = 7776000000\<rparr>" 0
        "\<lparr>targetAmount = 12000, deadline = 7776000000\<rparr>" 1000 0]
  by simp




section \<open>Monthly aggregation\<close>


text \<open>
  The two percentages are finite numbers for every input: the quotient is only taken
  under the guard \<open>incomeAmount > 0\<close>.
\<close>

lemma percentOf_finite: "is_finite (percentOf x i)"
  by (simp add: percentOf_def js_div_def)

lemma percentages_finite:
  "is_finite (percentOfIncome (dashboard inc es ps g now)) \<and>
   is_finite (savingsPercentOfIncome (dashboard inc es ps g now))"
  by (simp add: dashboard_def Let_def percentOf_finite)

lemma incomeAmount_zero_iff:
  "incomeAmount (dashboard inc es ps g now) = 0 \<longleftrightarrow>
     (case inc of None \<Rightarrow> True | Some i \<Rightarrow> income_amount i = 0)"
  by (simp add: dashboard_def Let_def incomeAmountOf_def split: option.splits)

text \<open>
  Claim C4. Whenever \<open>incomeAmount\<close> is 0 (no income record, or one with amount 0), both
  \<open>percentOfIncome\<close> and \<open>savingsPercentOfIncome\<close> are 0, whatever the expenses: the
  guard takes the branch without the division.
\<close>

theorem zero_income_zero_percentages:
  "incomeAmount (dashboard inc es ps g now) = 0 \<Longrightarrow>
     percentOfIncome (dashboard inc es ps g now) = Finite 0 \<and>
     savingsPercentOfIncome (dashboard inc es ps g now) = Finite 0"
  by (simp add: dashboard_def Let_def percentOf_def)

theorem zero_income_zero_percentages_witness:
  "incomeAmount (dashboard None [\<lparr>amount = 800, category = ''Food''\<rparr>] [] None 0) = 0 \<and>
   percentOfIncome (dashboard None [\<lparr>amount = 800, category = ''Food''\<rparr>] [] None 0)
     = Finite 0 \<and>
   savingsPercentOfIncome (dashboard None [\<lparr>amount = 800, category = ''Food''\<rparr>] [] None 0)
     = Finite 0 \<and>
   incomeAmount (dashboard (Some \<lparr>income_amount = 0, updatedAt = 1\<rparr>)
     [\<lparr>amount = 800, category = ''Food''\<rparr>] [] None 0) = 0 \<and>
   percentOfIncome (dashboard (Some \<lparr>income_amount = 0, updatedAt = 1\<rparr>)
     [\<lparr>amount = 800, category = ''Food''\<rparr>] [] None 0) = Finite 0 \<and>
   savingsPercentOfIncome (dashboard (Some \<lparr>income_amount = 0, updatedAt = 1\<rparr>)
     [\<lparr>amount = 800, category = ''Food''\<rparr>] [] None 0) = Finite 0"
proof -
  have h: "incomeAmount (dashboard None [\<lparr>amount = 800, category = ''Food''\<rparr>] [] None 0) = 0"
    by (simp add: dashboard_def Let_def incomeAmountOf_def)
  have h': "incomeAmount (dashboard (Some \<lparr>income_amount = 0, updatedAt = 1\<rparr>)
     [\<lparr>amount = 800, category = ''Food''\<rparr>] [] None 0) = 0"
    by (simp add: dashboard_def Let_def incomeAmountOf_def)
  from zero_income_zero_percentages [OF h] zero_income_zero_percentages [OF h'] h h'
  show ?thesis
    by simp
qed

subsection \<open>The object as an association list\<close>

lemma obj_get_set_same: "obj_get (obj_set acc k v) k = Some v"
  by (induction acc) auto

lemma obj_get_set_other: "k' \<noteq> k \<Longrightarrow> obj_get (obj_set acc k v) k' = obj_get acc k'"
  by (induction acc) auto

lemma obj_set_twice: "obj_set (obj_set acc k v) k w = obj_set acc k w"
  by (induction acc) auto





subsection \<open>One step of the grouping\<close>

text \<open>
  The reset to 0 only happens where the entry is missing or already 0, so a step adds the
  amount to the category's entry, creating the entry at the end when it is new.
\<close>

lemma groupStep_eq:
  "groupStep acc e =
     obj_set acc (category e)
       ((case obj_get acc (category e) of None \<Rightarrow> 0 | Some v \<Rightarrow> v) + amount e)"
  by (cases "obj_get acc (category e)")
     (simp_all add: groupStep_def falsy_def Let_def obj_get_set_same obj_set_twice)



lemma groupStep_lookup:
  "obj_get (groupStep acc e) c =
     (if category e = c
      then Some ((case obj_get acc c of None \<Rightarrow> 0 | Some v \<Rightarrow> v) + amount e)
      else obj_get acc c)"
  by (auto simp add: groupStep_eq obj_get_set_same obj_get_set_other)


subsection \<open>The whole grouping\<close>







lemma group_lookup:
  "obj_get (foldl groupStep acc es) c =
     (if obj_get acc c = None \<and> c \<notin> set (map category es) then None
      else Some ((case obj_get acc c of None \<Rightarrow> 0 | Some v \<Rightarrow> v)
                   + sum_list (map amount (filter (\<lambda>e. category e = c) es))))"
proof (induction es arbitrary: acc)
  case Nil
  then show ?case by (simp split: option.splits)
next
  case (Cons e es)
  show ?case
    by (simp add: Cons.IH groupStep_lookup split: option.splits)
qed

text \<open>
  The entry of a category is the sum of the amounts of its expenses, and only the
  categories of the month have an entry.
\<close>

lemma category_totals:
  "obj_get (expensesByCategoryOf es) c =
     (if c \<in> set (map category es)
      then Some (sum_list (map amount (filter (\<lambda>e. category e = c) es)))
      else None)"
  by (simp add: expensesByCategoryOf_def group_lookup)


subsection \<open>The highest category\<close>





subsection \<open>Missing inputs\<close>



section \<open>Currency conversion\<close>




subsection \<open>Round trips\<close>







end
